theory Spec2Isabelle
  imports Main "HOL-Library.Word"
begin

section \<open>Values, errors and the outside world\<close>

text \<open>
  The program is \<^verbatim>\<open>set_nasa_apod_wallpaper.py\<close>. What the API answers is parsed JSON:
  a dictionary from keys to JSON values. The fields of a listing hold whatever value the
  dictionary had, as Python's untyped attributes do.
\<close>

datatype json =
    JNull
  | JBool bool
  | JNum int
  | JStr string
  | JArr "json list"
  | JObj "string \<rightharpoonup> json"

type_synonym dict = "string \<rightharpoonup> json"

type_synonym path = "string list"

type_synonym bytes = "8 word list"

text \<open>
  Exceptions are values. \<open>Exception\<close> carries the message the program gave it; the others
  are raised by the runtime, the \<^verbatim>\<open>requests\<close> library or the operating system.
\<close>

datatype error =
    Exception string
  | KeyError string
  | TypeError
  | AttributeError
  | ValueError
  | RequestException string
  | FileNotFoundError path
  | FileExistsError path
  | NotADirectoryError path
  | IsADirectoryError path
  | OSError path

record response =
  content :: bytes
  json_body :: "error + dict"

text \<open>
  The collaborators of the program: the home directory that \<^verbatim>\<open>expanduser\<close> finds, the path
  that \<^verbatim>\<open>Path("./setWallpaper.sh").resolve()\<close> yields, the answer of \<^verbatim>\<open>requests.get\<close> for
  a URL (an exception, or a response, which the source also tests for \<^verbatim>\<open>None\<close>), what \<^verbatim>\<open>subprocess.run\<close> raises (if anything), the text of \<^verbatim>\<open>str(v)\<close> for a value
  that is not a string, and the text of \<^verbatim>\<open>str(e)\<close> for an exception of the runtime.
\<close>

record world =
  home :: path
  wallpaper_script :: path
  http_get :: "string \<Rightarrow> error + response option"
  spawn :: "path \<Rightarrow> path \<Rightarrow> error option"
  str_other :: "json \<Rightarrow> string"
  str_exc :: "error \<Rightarrow> string"

definition py_str :: "world \<Rightarrow> json \<Rightarrow> string" where
  "py_str w v = (case v of JStr s \<Rightarrow> s | _ \<Rightarrow> str_other w v)"

definition exc_text :: "world \<Rightarrow> error \<Rightarrow> string" where
  "exc_text w e = (case e of Exception m \<Rightarrow> m | _ \<Rightarrow> str_exc w e)"

section \<open>Strings\<close>

text \<open>\<^verbatim>\<open>s.split(sep)\<close> for a separator of one character: never an empty list.\<close>

fun split :: "char \<Rightarrow> string \<Rightarrow> string list" where
  "split sep [] = [[]]"
| "split sep (c # cs) =
     (if c = sep then [] # split sep cs
      else (case split sep cs of [] \<Rightarrow> [[c]] | x # xs \<Rightarrow> (c # x) # xs))"

section \<open>The listing\<close>

record ImageListing =
  date :: json
  explanation :: json
  media_type :: json
  title :: json
  url :: json

text \<open>\<^verbatim>\<open>d.get(k, default)\<close>\<close>

definition dict_get :: "dict \<Rightarrow> string \<Rightarrow> json \<Rightarrow> json" where
  "dict_get d k dflt = (case d k of None \<Rightarrow> dflt | Some v \<Rightarrow> v)"

definition from_api_resp_json :: "dict \<Rightarrow> ImageListing" where
  "from_api_resp_json j =
     \<lparr> date = dict_get j ''date'' (JStr ''''),
       explanation = dict_get j ''explanation'' (JStr ''''),
       media_type = dict_get j ''media_type'' (JStr ''''),
       title = dict_get j ''title'' (JStr ''''),
       url = dict_get j ''hdurl'' (JStr '''') \<rparr>"

text \<open>The constructor \<^verbatim>\<open>__init__(self, contents={})\<close> only calls \<^verbatim>\<open>from_api_resp_json\<close>.\<close>

definition new_ImageListing :: "dict \<Rightarrow> ImageListing" where
  "new_ImageListing contents = from_api_resp_json contents"

definition is_image :: "ImageListing \<Rightarrow> bool" where
  "is_image l = (media_type l = JStr ''image'')"

text \<open>
  \<^verbatim>\<open>self.url.split("/")[-1]\<close>: only a string has \<^verbatim>\<open>split\<close>; any other JSON value raises
  \<^verbatim>\<open>AttributeError\<close>.
\<close>

definition save_name :: "world \<Rightarrow> ImageListing \<Rightarrow> error + string" where
  "save_name w l =
     (case url l of
        JStr u \<Rightarrow>
          (let remote_file_name = last (split (CHR ''/'') u)
           in Inr (py_str w (date l) @ ''_'' @ remote_file_name))
      | _ \<Rightarrow> Inl AttributeError)"

section \<open>Paths\<close>

text \<open>
  A path is the list of its components below the root. \<^verbatim>\<open>p / s\<close> parses the string: an
  absolute string replaces \<open>p\<close>, empty and \<^verbatim>\<open>.\<close> components are dropped. A component
  \<^verbatim>\<open>..\<close> is kept as pathlib keeps it; the file system below does not resolve it, so the
  results about files are stated for dates without a slash.
\<close>

definition parts :: "string \<Rightarrow> path" where
  "parts s = filter (\<lambda>c. c \<noteq> [] \<and> c \<noteq> ''.'') (split (CHR ''/'') s)"

definition path_div :: "path \<Rightarrow> string \<Rightarrow> path" where
  "path_div p s = (if s \<noteq> [] \<and> hd s = CHR ''/'' then parts s else p @ parts s)"

text \<open>
  \<^verbatim>\<open>PurePath.suffix\<close>: the text from the last dot of the name on, unless that dot is the
  first or the last character of the name.
\<close>

definition name_suffix :: "string \<Rightarrow> string" where
  "name_suffix name =
     (if CHR ''.'' \<notin> set name then []
      else
        (let tail = rev (takeWhile (\<lambda>c. c \<noteq> CHR ''.'') (rev name));
             i = length name - Suc (length tail)
         in if 0 < i \<and> Suc i < length name then drop i name else []))"

text \<open>
  \<^verbatim>\<open>PurePath.with_suffix\<close> as Python 3.12 has it (the source needs 3.12 for its
  f-string): a suffix with a separator, a non-empty suffix that does not start with a dot,
  the suffix \<^verbatim>\<open>.\<close> and a path without a name raise \<^verbatim>\<open>ValueError\<close>.
\<close>

definition with_suffix :: "path \<Rightarrow> string \<Rightarrow> error + path" where
  "with_suffix p suffix =
     (if CHR ''/'' \<in> set suffix then Inl ValueError
      else if (suffix \<noteq> [] \<and> hd suffix \<noteq> CHR ''.'') \<or> suffix = ''.'' then Inl ValueError
      else if p = [] then Inl ValueError
      else
        (let name = last p; old_suffix = name_suffix name
         in Inr (butlast p @ [take (length name - length old_suffix) name @ suffix])))"

section \<open>The file system\<close>

text \<open>
  The file system maps a path to the entry found there. It fails for structural reasons
  only (a missing parent, an entry in the way); permissions and full disks are not
  modelled. A symbolic link is followed as the last component of a path, through at most
  40 links; the root is a directory.
\<close>

datatype filedata = Bytes bytes | Text string

datatype node = Dir | File filedata | Link path

type_synonym filesystem = "path \<rightharpoonup> node"

definition entry :: "filesystem \<Rightarrow> path \<Rightarrow> node option" where
  "entry fs p = (if p = [] then Some Dir else fs p)"

fun resolve :: "nat \<Rightarrow> filesystem \<Rightarrow> path \<Rightarrow> path option" where
  "resolve 0 fs p = (case entry fs p of Some (Link t) \<Rightarrow> None | _ \<Rightarrow> Some p)"
| "resolve (Suc n) fs p = (case entry fs p of Some (Link t) \<Rightarrow> resolve n fs t | _ \<Rightarrow> Some p)"

definition stat :: "filesystem \<Rightarrow> path \<Rightarrow> node option" where
  "stat fs p = (case resolve 40 fs p of None \<Rightarrow> None | Some q \<Rightarrow> entry fs q)"

definition path_exists :: "filesystem \<Rightarrow> path \<Rightarrow> bool" where
  "path_exists fs p = (stat fs p \<noteq> None)"

definition is_file :: "filesystem \<Rightarrow> path \<Rightarrow> bool" where
  "is_file fs p = (case stat fs p of Some (File _) \<Rightarrow> True | _ \<Rightarrow> False)"

definition is_dir :: "filesystem \<Rightarrow> path \<Rightarrow> bool" where
  "is_dir fs p = (case stat fs p of Some Dir \<Rightarrow> True | _ \<Rightarrow> False)"

text \<open>
  Looking up the directory in which an entry is to be made. A directory is found; an entry
  that is no directory is \<^verbatim>\<open>ENOTDIR\<close>; where there is no entry, the answer lies further up:
  \<^verbatim>\<open>ENOTDIR\<close> when the nearest ancestor that exists is no directory, \<^verbatim>\<open>ENOENT\<close> otherwise.
\<close>

datatype lookup = IsDir | NoEntry | NotDir

function lookup_dir :: "filesystem \<Rightarrow> path \<Rightarrow> lookup" where
  "lookup_dir fs q =
     (case stat fs q of
        Some Dir \<Rightarrow> IsDir
      | Some _ \<Rightarrow> NotDir
      | None \<Rightarrow>
          (if q = [] then NoEntry
           else (case lookup_dir fs (butlast q) of NotDir \<Rightarrow> NotDir | _ \<Rightarrow> NoEntry)))"
  by pat_completeness auto
termination
  by (relation "measure (\<lambda>(fs, q). length q)") auto

declare lookup_dir.simps [simp del]

text \<open>\<^verbatim>\<open>os.mkdir\<close>: the parent is looked up first, then the name.\<close>

definition os_mkdir :: "filesystem \<Rightarrow> path \<Rightarrow> error + filesystem" where
  "os_mkdir fs p =
     (if p = [] then Inl (FileExistsError p)
      else
        (case lookup_dir fs (butlast p) of
           NoEntry \<Rightarrow> Inl (FileNotFoundError p)
         | IsDir \<Rightarrow> (if fs p = None then Inr (fs(p \<mapsto> Dir)) else Inl (FileExistsError p))
         | NotDir \<Rightarrow> Inl (NotADirectoryError p)))"

text \<open>
  \<^verbatim>\<open>Path.mkdir(parents, exist_ok)\<close>: on \<^verbatim>\<open>FileNotFoundError\<close> with \<^verbatim>\<open>parents\<close> it makes the
  parent (with \<^verbatim>\<open>exist_ok=True\<close>) and tries once more without \<^verbatim>\<open>parents\<close>; any other
  error is raised unless \<^verbatim>\<open>exist_ok\<close> holds and the path is a directory. The parent of the
  root is the root. The parents made before a failure stay, so the file system is returned
  beside the error.
\<close>

function mkdir :: "filesystem \<Rightarrow> path \<Rightarrow> bool \<Rightarrow> bool \<Rightarrow> error option \<times> filesystem" where
  "mkdir fs p parents exist_ok =
     (case os_mkdir fs p of
        Inr fs' \<Rightarrow> (None, fs')
      | Inl (FileNotFoundError q) \<Rightarrow>
          (if \<not> parents \<or> butlast p = p then (Some (FileNotFoundError q), fs)
           else
             (case mkdir fs (butlast p) True True of
                (Some e, fs') \<Rightarrow> (Some e, fs')
              | (None, fs') \<Rightarrow> mkdir fs' p False exist_ok))
      | Inl e \<Rightarrow> (if \<not> exist_ok \<or> \<not> is_dir fs p then (Some e, fs) else (None, fs)))"
  by pat_completeness auto
termination
proof (relation "measures [\<lambda>(fs, p, parents, exist_ok). length p,
                           \<lambda>(fs, p, parents, exist_ok). if parents then 1 else 0]")
  show "wf (measures [\<lambda>(fs, p, parents, exist_ok). length p,
                      \<lambda>(fs, p, parents, exist_ok). if parents then 1 else (0::nat)])"
    by simp
next
  fix fs :: filesystem and p :: path and parents exist_ok :: bool
  assume "\<not> (\<not> parents \<or> butlast p = p)"
  then have "p \<noteq> []" by auto
  then show "((fs, butlast p, True, True), (fs, p, parents, exist_ok))
      \<in> measures [\<lambda>(fs, p, parents, exist_ok). length p,
                   \<lambda>(fs, p, parents, exist_ok). if parents then 1 else (0::nat)]"
    by simp
next
  fix fs fs' :: filesystem and p :: path and parents exist_ok :: bool
  assume "\<not> (\<not> parents \<or> butlast p = p)"
  then show "((fs', p, False, exist_ok), (fs, p, parents, exist_ok))
      \<in> measures [\<lambda>(fs, p, parents, exist_ok). length p,
                   \<lambda>(fs, p, parents, exist_ok). if parents then 1 else (0::nat)]"
    by simp
qed

declare mkdir.simps [simp del]

text \<open>
  \<^verbatim>\<open>write_bytes\<close> and \<^verbatim>\<open>write_text\<close> open the path for writing, through a link if the path
  is one, and replace what the file held.
\<close>

definition write_file :: "filesystem \<Rightarrow> path \<Rightarrow> filedata \<Rightarrow> error + filesystem" where
  "write_file fs p d =
     (case resolve 40 fs p of
        None \<Rightarrow> Inl (OSError p)
      | Some q \<Rightarrow>
          (if q = [] then Inl (IsADirectoryError p)
           else
             (case lookup_dir fs (butlast q) of
                NoEntry \<Rightarrow> Inl (FileNotFoundError p)
              | IsDir \<Rightarrow>
                  (case fs q of
                     Some Dir \<Rightarrow> Inl (IsADirectoryError p)
                   | _ \<Rightarrow> Inr (fs(q \<mapsto> File d)))
              | NotDir \<Rightarrow> Inl (NotADirectoryError p))))"

text \<open>
  \<^verbatim>\<open>link.symlink_to(target)\<close> makes the entry \<open>link\<close>, pointing to \<open>target\<close>, in a directory
  that exists.
\<close>

definition symlink_to :: "filesystem \<Rightarrow> path \<Rightarrow> path \<Rightarrow> error + filesystem" where
  "symlink_to fs link target =
     (if link = [] then Inl (FileExistsError link)
      else
        (case lookup_dir fs (butlast link) of
           NoEntry \<Rightarrow> Inl (FileNotFoundError link)
         | IsDir \<Rightarrow>
             (if fs link = None then Inr (fs(link \<mapsto> Link target))
              else Inl (FileExistsError link))
         | NotDir \<Rightarrow> Inl (NotADirectoryError link)))"

section \<open>The run: events, state and outcome\<close>

text \<open>
  A run leaves a trace of what it printed, which HTTP requests it made (the one of
  \<^verbatim>\<open>get_image_listing\<close> and the one of \<^verbatim>\<open>get_image\<close> are told apart) and which process it
  started, and it changes the file system. An exception that nothing catches ends the
  process with status 1, as \<^verbatim>\<open>exit(1)\<close> does.
\<close>

datatype event =
    Print string
  | ApiGet string
  | ImageGet string
  | Run path path

record state =
  files :: filesystem
  trace :: "event list"

datatype outcome = Finished | Exit nat | Uncaught error

definition exit_status :: "outcome \<Rightarrow> nat" where
  "exit_status out = (case out of Finished \<Rightarrow> 0 | Exit n \<Rightarrow> n | Uncaught e \<Rightarrow> 1)"

definition emit :: "event \<Rightarrow> state \<Rightarrow> state" where
  "emit ev s = s\<lparr>trace := trace s @ [ev]\<rparr>"

definition start :: "filesystem \<Rightarrow> state" where
  "start fs0 = \<lparr>files = fs0, trace = []\<rparr>"

section \<open>Fetching the listing and the image\<close>

definition api_url :: "string \<Rightarrow> string" where
  "api_url api_key = ''https://api.nasa.gov/planetary/apod?api_key='' @ api_key"

text \<open>\<^verbatim>\<open>v[k]\<close> for a string key: a dictionary without the key raises \<^verbatim>\<open>KeyError\<close>, a value
  that is not a dictionary raises \<^verbatim>\<open>TypeError\<close>.\<close>

definition subscript :: "json \<Rightarrow> string \<Rightarrow> error + json" where
  "subscript v k =
     (case v of
        JObj d \<Rightarrow> (case d k of None \<Rightarrow> Inl (KeyError k) | Some x \<Rightarrow> Inr x)
      | _ \<Rightarrow> Inl TypeError)"

definition get_image_listing :: "world \<Rightarrow> string \<Rightarrow> state \<Rightarrow> (error + ImageListing) \<times> state" where
  "get_image_listing w api_key s =
     (let s1 = emit (ApiGet (api_url api_key)) s
      in case http_get w (api_url api_key) of
           Inl e \<Rightarrow> (Inl e, s1)
         | Inr None \<Rightarrow> (Inl (Exception ''Failed to hit apod endpoint''), s1)
         | Inr (Some get_apod_resp) \<Rightarrow>
             (case json_body get_apod_resp of
                Inl e \<Rightarrow> (Inl e, s1)
              | Inr get_apod_resp_dict \<Rightarrow>
                  (case get_apod_resp_dict ''error'' of
                     Some err \<Rightarrow>
                       (case subscript err ''code'' of
                          Inl e \<Rightarrow> (Inl e, s1)
                        | Inr code \<Rightarrow>
                            (Inl (Exception
                               (''API call was invalid but to the correct endpoint.''
                                @ '' error returned ['' @ py_str w code @ '']'')), s1))
                   | None \<Rightarrow> (Inr (new_ImageListing get_apod_resp_dict), s1))))"

text \<open>\<^verbatim>\<open>requests.get\<close> takes the text of its argument as the URL.\<close>

definition get_image :: "world \<Rightarrow> ImageListing \<Rightarrow> state \<Rightarrow> (error + bytes) \<times> state" where
  "get_image w image_listing s =
     (let u = py_str w (url image_listing); s1 = emit (ImageGet u) s
      in case http_get w u of
           Inl e \<Rightarrow> (Inl e, s1)
         | Inr None \<Rightarrow> (Inl (Exception ''Failed to hit image endpoint''), s1)
         | Inr (Some img_resp) \<Rightarrow> (Inr (content img_resp), s1))"

section \<open>main\<close>

text \<open>
  The script's entry point reads the key from \<^verbatim>\<open>./api_key.txt\<close> and calls \<^verbatim>\<open>main\<close> with it;
  \<^verbatim>\<open>main\<close> is what is modelled, with the key it is given or \<^verbatim>\<open>None\<close>.

  The body of \<^verbatim>\<open>if not img_save_location.exists():\<close> (lines 111 to 122 of the source). The
  result is the exception that ended it, if any; what was written before stays written.
\<close>

definition download_and_save ::
  "world \<Rightarrow> ImageListing \<Rightarrow> path \<Rightarrow> path \<Rightarrow> state \<Rightarrow> error option \<times> state" where
  "download_and_save w img_listing img_save_location link_save_location s =
     (case mkdir (files s) img_save_location True False of
        (Some e, fs1) \<Rightarrow> (Some e, s\<lparr>files := fs1\<rparr>)
      | (None, fs1) \<Rightarrow>
          (case get_image w img_listing (s\<lparr>files := fs1\<rparr>) of
             (Inl e, s2) \<Rightarrow> (Some e, s2)
           | (Inr img_data, s2) \<Rightarrow>
               (case url img_listing of
                  JStr u \<Rightarrow>
                    (let img_file_extension = ''.'' @ last (split (CHR ''.'') u)
                     in case with_suffix (path_div img_save_location ''image'') img_file_extension of
                          Inl e \<Rightarrow> (Some e, s2)
                        | Inr img_path \<Rightarrow>
                            (case write_file (files s2) img_path (Bytes img_data) of
                               Inl e \<Rightarrow> (Some e, s2)
                             | Inr fs3 \<Rightarrow>
                                 (case write_file fs3 (path_div img_save_location ''description.txt'')
                                         (Text (py_str w (title img_listing) @ [CHR 0x0A, CHR 0x0A]
                                                @ py_str w (explanation img_listing) @ [CHR 0x0A])) of
                                    Inl e \<Rightarrow> (Some e, s2\<lparr>files := fs3\<rparr>)
                                  | Inr fs4 \<Rightarrow>
                                      (case symlink_to fs4 link_save_location
                                              (path_div img_save_location ''image'') of
                                         Inl e \<Rightarrow> (Some e, s2\<lparr>files := fs4\<rparr>)
                                       | Inr fs5 \<Rightarrow> (None, s2\<lparr>files := fs5\<rparr>)))))
                | _ \<Rightarrow> (Some AttributeError, s2))))"

definition main :: "world \<Rightarrow> string option \<Rightarrow> state \<Rightarrow> outcome \<times> state" where
  "main w api_key s =
     (case api_key of
        None \<Rightarrow> (Exit 1, emit (Print ''No API key provided'') s)
      | Some key \<Rightarrow>
          (if \<not> is_file (files s) (wallpaper_script w)
           then (Exit 1, emit (Print ''Wallpaper setting script not found'') s)
           else
             (case get_image_listing w key (emit (Print ''Getting daily-image listing'') s) of
                (Inl e, s1) \<Rightarrow>
                  (Exit 1, emit (Print (''Failed to get image listing: '' @ exc_text w e)) s1)
              | (Inr img_listing, s1) \<Rightarrow>
                  (let s2 = emit (Print (CHR 0x09 # ''Title: '' @ py_str w (title img_listing))) s1
                   in if \<not> is_image img_listing
                      then (Exit 1, emit (Print ''Not an image today'') s2)
                      else
                        (let s3 = emit (Print ''Downloading image'') s2;
                             images_save_dir = path_div (home w) ''APOD'';
                             links_save_dir = path_div (home w) ''Pictures/APOD''
                         in case save_name w img_listing of
                              Inl e \<Rightarrow> (Uncaught e, s3)
                            | Inr name \<Rightarrow>
                                (let img_save_location = path_div images_save_dir name;
                                     link_save_location = path_div links_save_dir name
                                 in case (if \<not> path_exists (files s3) img_save_location
                                          then download_and_save w img_listing
                                                 img_save_location link_save_location s3
                                          else (None, emit (Print
                                                  ''The image does not need to be downloaded'') s3)) of
                                      (Some e, s4) \<Rightarrow> (Uncaught e, s4)
                                    | (None, s4) \<Rightarrow>
                                        (let s5 = emit (Run (wallpaper_script w) link_save_location)
                                                    (emit (Print ''Setting wallpaper'') s4)
                                         in case spawn w (wallpaper_script w) link_save_location of
                                              Some e \<Rightarrow> (Uncaught e, s5)
                                            | None \<Rightarrow> (Finished, s5))))))))"

section \<open>Reading a run\<close>

text \<open>
  What a trace says: the URLs the image was asked from, the URLs the API was asked at, and
  the processes that were started.
\<close>

definition image_requests :: "event list \<Rightarrow> string list" where
  "image_requests tr = [u. ImageGet u \<leftarrow> tr]"

definition api_requests :: "event list \<Rightarrow> string list" where
  "api_requests tr = [u. ApiGet u \<leftarrow> tr]"


text \<open>
  The file system once \<^verbatim>\<open>mkdir\<close>, \<^verbatim>\<open>write_bytes\<close> and \<^verbatim>\<open>write_text\<close> have succeeded in a
  directory \<open>dir\<close> that did not exist: the directory and its parent, the image and the
  description.
\<close>

definition saved ::
  "world \<Rightarrow> ImageListing \<Rightarrow> path \<Rightarrow> string \<Rightarrow> bytes \<Rightarrow> filesystem \<Rightarrow> filesystem" where
  "saved w l dir ext img_data fs0 =
     fs0(butlast dir \<mapsto> Dir, dir \<mapsto> Dir,
         dir @ [''image.'' @ ext] \<mapsto> File (Bytes img_data),
         dir @ [''description.txt''] \<mapsto>
           File (Text (py_str w (title l) @ [CHR 0x0A, CHR 0x0A]
                       @ py_str w (explanation l) @ [CHR 0x0A])))"

section \<open>Example inputs\<close>

text \<open>
  The response of the specification's example, a world that serves it for the key
  \<^verbatim>\<open>KEY\<close> and three bytes for the image, and the file systems of a user \<^verbatim>\<open>u\<close>: without
  and with \<^verbatim>\<open>~/Pictures/APOD\<close>, with the picture of the day already there, and with a
  regular file where \<^verbatim>\<open>~/Pictures\<close> should be.
\<close>

definition example_response :: dict where
  "example_response =
     map_of [(''date'', JStr ''2024-01-01''), (''media_type'', JStr ''image''),
             (''title'', JStr ''T''), (''explanation'', JStr ''E''),
             (''hdurl'', JStr ''http://x/y/pic.jpg'')]"

definition example_world :: world where
  "example_world =
     \<lparr> home = [''home'', ''u''],
       wallpaper_script = [''home'', ''u'', ''setWallpaper.sh''],
       http_get = (\<lambda>u. if u = api_url ''KEY''
                         then Inr (Some \<lparr>content = [], json_body = Inr example_response\<rparr>)
                       else if u = ''http://x/y/pic.jpg''
                         then Inr (Some \<lparr>content = [1, 2, 3], json_body = Inl ValueError\<rparr>)
                       else Inl (RequestException ''unreachable'')),
       spawn = (\<lambda>script arg. None),
       str_other = (\<lambda>v. ''?''),
       str_exc = (\<lambda>e. ''?'') \<rparr>"

definition example_fs_no_links :: filesystem where
  "example_fs_no_links =
     map_of [([''home''], Dir), ([''home'', ''u''], Dir),
             ([''home'', ''u'', ''setWallpaper.sh''], File (Text ''#!/bin/sh'')),
             ([''home'', ''u'', ''Pictures''], Dir)]"

definition example_fs :: filesystem where
  "example_fs = example_fs_no_links([''home'', ''u'', ''Pictures'', ''APOD''] \<mapsto> Dir)"

definition example_fs_cached :: filesystem where
  "example_fs_cached =
     example_fs([''home'', ''u'', ''APOD''] \<mapsto> Dir,
                [''home'', ''u'', ''APOD'', ''2024-01-01_pic.jpg''] \<mapsto> Dir)"



text \<open>A day with a video, and the answer to a wrong key.\<close>

definition example_video_response :: dict where
  "example_video_response = example_response(''media_type'' \<mapsto> JStr ''video'')"

definition example_error_response :: dict where
  "example_error_response =
     map_of [(''error'', JObj (map_of [(''code'', JStr ''API_KEY_INVALID''),
                                       (''message'', JStr ''An invalid api_key was supplied.'')]))]"

definition world_answering :: "dict \<Rightarrow> world" where
  "world_answering body =
     example_world\<lparr>http_get :=
       (\<lambda>u. Inr (Some \<lparr>content = [], json_body = Inr body\<rparr>))\<rparr>"

section \<open>Strings and paths\<close>

lemma split_not_Nil: "split sep s \<noteq> []"
  by (induction s) (auto split: list.splits)

lemma last_split_no_sep: "sep \<notin> set s \<Longrightarrow> split sep s = [s]"
  by (induction s) auto

lemma split_append_sep:
  "split sep (pre @ sep # seg) = split sep pre @ split sep seg"
proof (induction pre)
  case Nil
  show ?case by simp
next
  case (Cons c pre)
  then show ?case
    by (cases "split sep pre") (auto simp: split_not_Nil)
qed

lemma last_split_segment:
  "sep \<notin> set seg \<Longrightarrow> last (split sep (pre @ sep # seg)) = seg"
  by (simp add: split_append_sep last_split_no_sep split_not_Nil)

lemma save_name_segment:
  assumes "j ''date'' = Some (JStr d)"
    and "j ''hdurl'' = Some (JStr (pre @ CHR ''/'' # seg))"
    and "CHR ''/'' \<notin> set seg"
  shows "save_name w (new_ImageListing j) = Inr (d @ ''_'' @ seg)"
  using assms
  by (simp add: save_name_def new_ImageListing_def from_api_resp_json_def dict_get_def
      py_str_def last_split_segment)

lemma parts_single:
  "CHR ''/'' \<notin> set s \<Longrightarrow> s \<noteq> [] \<Longrightarrow> s \<noteq> ''.'' \<Longrightarrow> parts s = [s]"
  by (simp add: parts_def last_split_no_sep)

lemma path_div_single:
  "CHR ''/'' \<notin> set s \<Longrightarrow> s \<noteq> [] \<Longrightarrow> s \<noteq> ''.'' \<Longrightarrow> path_div p s = p @ [s]"
  by (cases s) (auto simp: path_div_def parts_single)

lemma path_div_consts:
  "path_div p ''APOD'' = p @ [''APOD'']"
  "path_div p ''Pictures/APOD'' = p @ [''Pictures'', ''APOD'']"
  "path_div p ''image'' = p @ [''image'']"
  "path_div p ''description.txt'' = p @ [''description.txt'']"
  by (simp_all add: path_div_def parts_def)

lemma save_dir_single:
  assumes "CHR ''/'' \<notin> set d" "CHR ''/'' \<notin> set seg"
  shows "path_div p (d @ ''_'' @ seg) = p @ [d @ ''_'' @ seg]"
proof (rule path_div_single)
  show "CHR ''/'' \<notin> set (d @ ''_'' @ seg)" using assms by simp
  show "d @ ''_'' @ seg \<noteq> []" by simp
  show "d @ ''_'' @ seg \<noteq> ''.''"
  proof
    assume "d @ ''_'' @ seg = ''.''"
    then have "set (d @ ''_'' @ seg) = set ''.''" by (rule arg_cong)
    then show False by auto
  qed
qed

lemma with_suffix_image:
  "CHR ''/'' \<notin> set ext \<Longrightarrow> ext \<noteq> [] \<Longrightarrow>
   with_suffix (p @ [''image'']) (CHR ''.'' # ext) = Inr (p @ [''image.'' @ ext])"
  by (simp add: with_suffix_def name_suffix_def)

section \<open>The file system\<close>

lemma resolve_not_link:
  "(\<And>t. entry fs p \<noteq> Some (Link t)) \<Longrightarrow> resolve n fs p = Some p"
  by (cases n) (auto split: option.splits node.splits)

lemma stat_Dir: "fs p = Some Dir \<Longrightarrow> stat fs p = Some Dir"
  by (simp add: stat_def resolve_not_link entry_def)

lemma stat_File: "fs p = Some (File d) \<Longrightarrow> p \<noteq> [] \<Longrightarrow> stat fs p = Some (File d)"
  by (simp add: stat_def resolve_not_link entry_def)

lemma stat_None: "fs p = None \<Longrightarrow> p \<noteq> [] \<Longrightarrow> stat fs p = None"
  by (simp add: stat_def resolve_not_link entry_def)

lemma stat_dangling:
  assumes "fs p = Some (Link t)" "p \<noteq> []" "t \<noteq> []" "fs t = None"
  shows "stat fs p = None"
proof -
  have "resolve (Suc n) fs p = resolve n fs t" for n
    using assms by (simp add: entry_def)
  from this [of 39] have "resolve 40 fs p = resolve 39 fs t" by simp
  then show ?thesis
    using assms by (simp add: stat_def resolve_not_link entry_def)
qed

lemma is_file_File: "fs p = Some (File d) \<Longrightarrow> p \<noteq> [] \<Longrightarrow> is_file fs p"
  by (simp add: is_file_def stat_File)

lemma path_exists_Dir: "fs p = Some Dir \<Longrightarrow> path_exists fs p"
  by (simp add: path_exists_def stat_Dir)

lemma lookup_dir_Dir: "fs q = Some Dir \<Longrightarrow> lookup_dir fs q = IsDir"
  by (subst lookup_dir.simps) (simp add: stat_Dir)


lemma lookup_dir_None:
  "fs q = None \<Longrightarrow> q \<noteq> [] \<Longrightarrow>
   lookup_dir fs q = (case lookup_dir fs (butlast q) of NotDir \<Rightarrow> NotDir | _ \<Rightarrow> NoEntry)"
  by (subst lookup_dir.simps) (simp add: stat_None)

lemma lookup_dir_None_below_Dir:
  "fs (q @ [x]) = None \<Longrightarrow> fs q = Some Dir \<Longrightarrow> lookup_dir fs (q @ [x]) = NoEntry"
  by (simp add: lookup_dir_None lookup_dir_Dir)

lemma os_mkdir_ok:
  "fs q = Some Dir \<Longrightarrow> fs (q @ [x]) = None \<Longrightarrow> os_mkdir fs (q @ [x]) = Inr (fs(q @ [x] \<mapsto> Dir))"
  by (simp add: os_mkdir_def lookup_dir_Dir)

lemma os_mkdir_no_parent:
  "fs q = Some Dir \<Longrightarrow> fs (q @ [x]) = None \<Longrightarrow>
   os_mkdir fs (q @ [x, y]) = Inl (FileNotFoundError (q @ [x, y]))"
  by (simp add: os_mkdir_def lookup_dir_None_below_Dir butlast_append)

text \<open>
  \<^verbatim>\<open>mkdir(parents=True)\<close> below an existing directory \<open>h\<close> makes \<open>h/a/b\<close>, and \<open>h/a\<close> too when
  it is missing.
\<close>

lemma mkdir_two_levels:
  assumes h: "fs h = Some Dir"
    and a: "fs (h @ [a]) = None \<or> fs (h @ [a]) = Some Dir"
    and b: "fs (h @ [a, b]) = None"
  shows "mkdir fs (h @ [a, b]) True False = (None, fs(h @ [a] \<mapsto> Dir, h @ [a, b] \<mapsto> Dir))"
proof -
  from a show ?thesis
  proof
    assume n: "fs (h @ [a]) = None"
    have 1: "mkdir fs (h @ [a]) True True = (None, fs(h @ [a] \<mapsto> Dir))"
      by (subst mkdir.simps) (simp add: os_mkdir_ok h n)
    have 2: "mkdir (fs(h @ [a] \<mapsto> Dir)) (h @ [a, b]) False False
               = (None, fs(h @ [a] \<mapsto> Dir, h @ [a, b] \<mapsto> Dir))"
      using os_mkdir_ok [of "fs(h @ [a] \<mapsto> Dir)" "h @ [a]" b] b
      by (subst mkdir.simps) simp
    show ?thesis
      by (subst mkdir.simps) (simp add: os_mkdir_no_parent h n butlast_append 1 2)
  next
    assume d: "fs (h @ [a]) = Some Dir"
    then have e: "fs(h @ [a] \<mapsto> Dir) = fs" by (simp add: fun_upd_idem)
    show ?thesis
      using os_mkdir_ok [of fs "h @ [a]" b] b d
      by (subst mkdir.simps) (simp add: e)
  qed
qed

lemma write_file_new:
  "p \<noteq> [] \<Longrightarrow> fs (butlast p) = Some Dir \<Longrightarrow> fs p = None \<Longrightarrow>
   write_file fs p d = Inr (fs(p \<mapsto> File d))"
  by (simp add: write_file_def resolve_not_link entry_def lookup_dir_Dir)

lemma symlink_to_new:
  "p \<noteq> [] \<Longrightarrow> fs (butlast p) = Some Dir \<Longrightarrow> fs p = None \<Longrightarrow>
   symlink_to fs p t = Inr (fs(p \<mapsto> Link t))"
  by (simp add: symlink_to_def lookup_dir_Dir)


section \<open>The run\<close>

lemma start_simps [simp]: "files (start fs0) = fs0" "trace (start fs0) = []"
  by (simp_all add: start_def)

lemma get_image_listing_state:
  "snd (get_image_listing w key s) = emit (ApiGet (api_url key)) s"
  by (simp add: get_image_listing_def Let_def split: sum.split option.split)

lemma get_image_listing_Inr:
  assumes "http_get w (api_url key) = Inr (Some r)" "json_body r = Inr body"
    and "fst (get_image_listing w key s) = Inr l"
  shows "l = new_ImageListing body"
  using assms
  by (simp add: get_image_listing_def Let_def split: sum.splits option.splits)

text \<open>
  The body of the \<^verbatim>\<open>if\<close>, up to the symbolic link: in a directory that does not exist yet,
  with an image that can be fetched and a URL that ends in a dot and an extension, the
  directory, the image and the description are written.
\<close>

lemma download_and_save_steps:
  assumes u: "url l = JStr (pre @ CHR ''.'' # ext)"
    and ext: "CHR ''.'' \<notin> set ext" "CHR ''/'' \<notin> set ext" "ext \<noteq> []"
    and get: "http_get w (pre @ CHR ''.'' # ext) = Inr (Some img_resp)"
    and h: "files s h = Some Dir"
    and a: "files s (h @ [a]) = None \<or> files s (h @ [a]) = Some Dir"
    and below: "\<And>q. files s (h @ [a, sn] @ q) = None"
  shows "download_and_save w l (h @ [a, sn]) lk s =
     (let fs4 = saved w l (h @ [a, sn]) ext (content img_resp) (files s);
          s2 = emit (ImageGet (pre @ CHR ''.'' # ext)) s
      in case symlink_to fs4 lk (h @ [a, sn, ''image'']) of
           Inl e \<Rightarrow> (Some e, s2\<lparr>files := fs4\<rparr>)
         | Inr fs5 \<Rightarrow> (None, s2\<lparr>files := fs5\<rparr>))"
proof -
  let ?dir = "h @ [a, sn]"
  let ?fs1 = "(files s)(h @ [a] \<mapsto> Dir, ?dir \<mapsto> Dir)"
  have b0: "files s ?dir = None" using below [of "[]"] by simp
  have mk: "mkdir (files s) ?dir True False = (None, ?fs1)"
    by (rule mkdir_two_levels [OF h a b0])
  have gi: "get_image w l (s\<lparr>files := ?fs1\<rparr>)
      = (Inr (content img_resp), emit (ImageGet (pre @ CHR ''.'' # ext)) (s\<lparr>files := ?fs1\<rparr>))"
    by (simp add: get_image_def u py_str_def get)
  have lx: "last (split (CHR ''.'') (pre @ CHR ''.'' # ext)) = ext"
    by (rule last_split_segment [OF ext(1)])
  have ws: "with_suffix (h @ [a, sn, ''image'']) (CHR ''.'' # ext) = Inr (h @ [a, sn, ''image.'' @ ext])"
    using with_suffix_image [OF ext(2) ext(3), of ?dir] by simp
  have i0: "files s (?dir @ [''image.'' @ ext]) = None" using below [of "[''image.'' @ ext]"] by simp
  have d0: "files s (?dir @ [''description.txt'']) = None" using below [of "[''description.txt'']"] by simp
  let ?fs3 = "?fs1(?dir @ [''image.'' @ ext] \<mapsto> File (Bytes (content img_resp)))"
  have w1: "write_file ?fs1 (?dir @ [''image.'' @ ext]) (Bytes (content img_resp)) = Inr ?fs3"
    using i0 by (intro write_file_new) (simp_all add: butlast_append)
  have w2: "write_file ?fs3 (?dir @ [''description.txt'']) d
      = Inr (?fs3(?dir @ [''description.txt''] \<mapsto> File d))" for d
    using d0 by (intro write_file_new) (simp_all add: butlast_append)
  show ?thesis
    unfolding download_and_save_def
    by (simp add: mk gi u lx ws w1 [simplified] w2 [simplified] path_div_consts emit_def saved_def
        butlast_append Let_def split: sum.split)
qed

text \<open>\<^verbatim>\<open>main\<close> up to the body of the \<^verbatim>\<open>if\<close>, for an image whose directory is missing.\<close>

lemma main_to_download:
  assumes script: "is_file fs0 (wallpaper_script w)"
    and api: "http_get w (api_url key) = Inr (Some r)" "json_body r = Inr body"
    and body: "body ''error'' = None" "body ''media_type'' = Some (JStr ''image'')"
      "body ''date'' = Some (JStr d)" "body ''hdurl'' = Some (JStr (pre @ CHR ''/'' # seg))"
    and d: "CHR ''/'' \<notin> set d" and seg: "CHR ''/'' \<notin> set seg"
    and absent: "fs0 (home w @ [''APOD'', d @ ''_'' @ seg]) = None"
  shows "main w (Some key) (start fs0) =
     (case download_and_save w (new_ImageListing body)
             (home w @ [''APOD'', d @ ''_'' @ seg])
             (home w @ [''Pictures'', ''APOD'', d @ ''_'' @ seg])
             \<lparr>files = fs0,
              trace = [Print ''Getting daily-image listing'', ApiGet (api_url key),
                       Print (CHR 0x09 # ''Title: '' @ py_str w (title (new_ImageListing body))),
                       Print ''Downloading image'']\<rparr> of
        (Some e, s4) \<Rightarrow> (Uncaught e, s4)
      | (None, s4) \<Rightarrow>
          (case spawn w (wallpaper_script w) (home w @ [''Pictures'', ''APOD'', d @ ''_'' @ seg]) of
             Some e \<Rightarrow> Uncaught e | None \<Rightarrow> Finished,
           emit (Run (wallpaper_script w) (home w @ [''Pictures'', ''APOD'', d @ ''_'' @ seg]))
             (emit (Print ''Setting wallpaper'') s4)))"
proof -
  let ?l = "new_ImageListing body"
  have gl: "get_image_listing w key s = (Inr ?l, emit (ApiGet (api_url key)) s)" for s
    by (simp add: get_image_listing_def api body Let_def)
  have img: "is_image ?l"
    by (simp add: is_image_def new_ImageListing_def from_api_resp_json_def dict_get_def body)
  have sn: "save_name w ?l = Inr (d @ ''_'' @ seg)"
    using body(3,4) seg by (rule save_name_segment)
  have ne: "\<not> path_exists fs0 (home w @ [''APOD'', d @ ''_'' @ seg])"
    using absent by (simp add: path_exists_def stat_None)
  have sd: "path_div (home w @ [''APOD'']) (d @ CHR ''_'' # seg) = home w @ [''APOD'', d @ CHR ''_'' # seg]"
    using save_dir_single [OF d seg, of "home w @ [''APOD'']"] by simp
  have lk: "path_div (home w @ [''Pictures'', ''APOD'']) (d @ CHR ''_'' # seg)
      = home w @ [''Pictures'', ''APOD'', d @ CHR ''_'' # seg]"
    using save_dir_single [OF d seg, of "home w @ [''Pictures'', ''APOD'']"] by simp
  have ne': "\<not> path_exists fs0 (home w @ [''APOD'', d @ CHR ''_'' # seg])"
    using ne by simp
  have sn': "save_name w ?l = Inr (d @ CHR ''_'' # seg)"
    using sn by simp
  show ?thesis
    unfolding main_def
    apply (simp add: script gl img sn' Let_def path_div_consts sd lk ne' emit_def start_def)
    apply (cases "download_and_save w (new_ImageListing body)
             (home w @ [''APOD'', d @ CHR ''_'' # seg])
             (home w @ [''Pictures'', ''APOD'', d @ CHR ''_'' # seg])
             \<lparr>files = fs0,
              trace = [Print ''Getting daily-image listing'', ApiGet (api_url key),
                       Print (CHR 0x09 # ''Title: '' @ py_str w (title (new_ImageListing body))),
                       Print ''Downloading image'']\<rparr>")
    subgoal for e s4
      by (cases e) (simp_all add: lk Let_def split: option.split)
    done
qed

lemma main_download_result:
  assumes script: "is_file fs0 (wallpaper_script w)"
    and api: "http_get w (api_url key) = Inr (Some r)" "json_body r = Inr body"
    and body: "body ''error'' = None" "body ''media_type'' = Some (JStr ''image'')"
      "body ''date'' = Some (JStr d)"
      "body ''hdurl'' = Some (JStr (pre @ CHR ''/'' # stem @ CHR ''.'' # ext))"
    and d: "CHR ''/'' \<notin> set d"
    and stem: "CHR ''/'' \<notin> set stem"
    and ext: "CHR ''.'' \<notin> set ext" "CHR ''/'' \<notin> set ext" "ext \<noteq> []"
    and get: "http_get w (pre @ CHR ''/'' # stem @ CHR ''.'' # ext) = Inr (Some img_resp)"
    and h: "fs0 (home w) = Some Dir"
    and a: "fs0 (home w @ [''APOD'']) = None \<or> fs0 (home w @ [''APOD'']) = Some Dir"
    and below: "\<And>q. fs0 (home w @ [''APOD'', d @ ''_'' @ stem @ ''.'' @ ext] @ q) = None"
  shows "main w (Some key) (start fs0) =
     (let name = d @ ''_'' @ stem @ ''.'' @ ext;
          dir = home w @ [''APOD'', name];
          lnk = home w @ [''Pictures'', ''APOD'', name];
          fs4 = saved w (new_ImageListing body) dir ext (content img_resp) fs0;
          tr = [Print ''Getting daily-image listing'', ApiGet (api_url key),
                Print (CHR 0x09 # ''Title: '' @ py_str w (title (new_ImageListing body))),
                Print ''Downloading image'',
                ImageGet (pre @ CHR ''/'' # stem @ CHR ''.'' # ext)]
      in case symlink_to fs4 lnk (dir @ [''image'']) of
           Inl e \<Rightarrow> (Uncaught e, \<lparr>files = fs4, trace = tr\<rparr>)
         | Inr fs5 \<Rightarrow>
             (case spawn w (wallpaper_script w) lnk of Some e \<Rightarrow> Uncaught e | None \<Rightarrow> Finished,
              \<lparr>files = fs5,
               trace = tr @ [Print ''Setting wallpaper'', Run (wallpaper_script w) lnk]\<rparr>))"
proof -
  let ?l = "new_ImageListing body"
  let ?seg = "stem @ CHR ''.'' # ext"
  let ?s3 = "\<lparr>files = fs0,
              trace = [Print ''Getting daily-image listing'', ApiGet (api_url key),
                       Print (CHR 0x09 # ''Title: '' @ py_str w (title (new_ImageListing body))),
                       Print ''Downloading image'']\<rparr>"
  have seg: "CHR ''/'' \<notin> set ?seg" using stem ext by simp
  have absent: "fs0 (home w @ [''APOD'', d @ ''_'' @ ?seg]) = None"
    using below [of "[]"] by simp
  have m: "main w (Some key) (start fs0) =
     (case download_and_save w ?l (home w @ [''APOD'', d @ ''_'' @ ?seg])
             (home w @ [''Pictures'', ''APOD'', d @ ''_'' @ ?seg]) ?s3 of
        (Some e, s4) \<Rightarrow> (Uncaught e, s4)
      | (None, s4) \<Rightarrow>
          (case spawn w (wallpaper_script w) (home w @ [''Pictures'', ''APOD'', d @ ''_'' @ ?seg]) of
             Some e \<Rightarrow> Uncaught e | None \<Rightarrow> Finished,
           emit (Run (wallpaper_script w) (home w @ [''Pictures'', ''APOD'', d @ ''_'' @ ?seg]))
             (emit (Print ''Setting wallpaper'') s4)))"
    by (rule main_to_download [OF script api body(1,2,3) body(4) d seg absent])
  have u: "url ?l = JStr ((pre @ CHR ''/'' # stem) @ CHR ''.'' # ext)"
    by (simp add: new_ImageListing_def from_api_resp_json_def dict_get_def body)
  have get': "http_get w ((pre @ CHR ''/'' # stem) @ CHR ''.'' # ext) = Inr (Some img_resp)"
    using get by simp
  have below': "files ?s3 (home w @ [''APOD'', d @ ''_'' @ ?seg] @ q) = None" for q
    using below [of q] by simp
  have ds: "download_and_save w ?l (home w @ [''APOD'', d @ ''_'' @ ?seg])
              (home w @ [''Pictures'', ''APOD'', d @ ''_'' @ ?seg]) ?s3 =
     (let fs4 = saved w ?l (home w @ [''APOD'', d @ ''_'' @ ?seg]) ext (content img_resp) (files ?s3);
          s2 = emit (ImageGet ((pre @ CHR ''/'' # stem) @ CHR ''.'' # ext)) ?s3
      in case symlink_to fs4 (home w @ [''Pictures'', ''APOD'', d @ ''_'' @ ?seg])
                (home w @ [''APOD'', d @ ''_'' @ ?seg, ''image'']) of
           Inl e \<Rightarrow> (Some e, s2\<lparr>files := fs4\<rparr>)
         | Inr fs5 \<Rightarrow> (None, s2\<lparr>files := fs5\<rparr>))"
    by (rule download_and_save_steps [OF u ext get' _ _ below']) (simp_all add: h a)
  show ?thesis
    unfolding m ds
    by (simp add: Let_def emit_def split: sum.split)
qed

text \<open>The run on the example: every step succeeds.\<close>

lemma example_run:
  "main example_world (Some ''KEY'') (start example_fs) =
     (Finished,
      \<lparr>files = example_fs
         ([''home'', ''u'', ''APOD''] \<mapsto> Dir,
          [''home'', ''u'', ''APOD'', ''2024-01-01_pic.jpg''] \<mapsto> Dir,
          [''home'', ''u'', ''APOD'', ''2024-01-01_pic.jpg'', ''image.jpg'']
            \<mapsto> File (Bytes [1, 2, 3]),
          [''home'', ''u'', ''APOD'', ''2024-01-01_pic.jpg'', ''description.txt'']
            \<mapsto> File (Text [CHR ''T'', CHR 0x0A, CHR 0x0A, CHR ''E'', CHR 0x0A]),
          [''home'', ''u'', ''Pictures'', ''APOD'', ''2024-01-01_pic.jpg'']
            \<mapsto> Link [''home'', ''u'', ''APOD'', ''2024-01-01_pic.jpg'', ''image'']),
       trace = [Print ''Getting daily-image listing'', ApiGet (api_url ''KEY''),
                Print (CHR 0x09 # ''Title: T''), Print ''Downloading image'',
                ImageGet ''http://x/y/pic.jpg'', Print ''Setting wallpaper'',
                Run [''home'', ''u'', ''setWallpaper.sh'']
                    [''home'', ''u'', ''Pictures'', ''APOD'', ''2024-01-01_pic.jpg'']]\<rparr>)"
proof -
  let ?fs4 = "saved example_world (new_ImageListing example_response)
                [''home'', ''u'', ''APOD'', ''2024-01-01_pic.jpg''] ''jpg'' [1, 2, 3] example_fs"
  have sl: "symlink_to ?fs4 [''home'', ''u'', ''Pictures'', ''APOD'', ''2024-01-01_pic.jpg'']
              [''home'', ''u'', ''APOD'', ''2024-01-01_pic.jpg'', ''image'']
    = Inr (?fs4([''home'', ''u'', ''Pictures'', ''APOD'', ''2024-01-01_pic.jpg'']
             \<mapsto> Link [''home'', ''u'', ''APOD'', ''2024-01-01_pic.jpg'', ''image'']))"
    by (intro symlink_to_new) (simp_all add: saved_def example_fs_def example_fs_no_links_def)
  show ?thesis
    using main_download_result [where ?fs0.0 = example_fs and w = example_world and key = "''KEY''"
      and r = "\<lparr>content = [], json_body = Inr example_response\<rparr>" and body = example_response
      and d = "''2024-01-01''" and pre = "''http://x/y''" and stem = "''pic''" and ext = "''jpg''"
      and img_resp = "\<lparr>content = [1, 2, 3], json_body = Inl ValueError\<rparr>"] sl
    by (simp add: example_world_def example_fs_def example_fs_no_links_def example_response_def
      is_file_File api_url_def Let_def new_ImageListing_def from_api_resp_json_def dict_get_def
      py_str_def saved_def)
qed

section \<open>The claims about the listing\<close>

text \<open>
  C3. For a response whose \<^verbatim>\<open>date\<close> is the string \<open>d\<close> and whose \<^verbatim>\<open>hdurl\<close> is a string that
  ends, after its last slash, in \<open>seg\<close>, the \<^verbatim>\<open>save_name\<close> of the listing made from it is
  \<open>d\<close>, an underscore and \<open>seg\<close>.
\<close>

theorem save_name_date_last_segment:
  assumes "j ''date'' = Some (JStr d)"
    and "j ''hdurl'' = Some (JStr (pre @ CHR ''/'' # seg))"
    and "CHR ''/'' \<notin> set seg"
  shows "save_name w (new_ImageListing j) = Inr (d @ ''_'' @ seg)"
  using assms by (rule save_name_segment)

text \<open>The example of the specification: \<^verbatim>\<open>2024-01-01_pic.jpg\<close>.\<close>

theorem save_name_date_last_segment_witness:
  "save_name example_world (new_ImageListing example_response) = Inr ''2024-01-01_pic.jpg''"
  using save_name_date_last_segment [of example_response "''2024-01-01''" "''http://x/y''"
      "''pic.jpg''" example_world]
  by (simp add: example_response_def)

text \<open>
  C4, as the code has it. A listing whose \<^verbatim>\<open>url\<close> is the empty string has a \<^verbatim>\<open>save_name\<close>, and
  it is not empty: \<^verbatim>\<open>"".split("/")\<close> is \<^verbatim>\<open>[""]\<close>, so the name is the text of the date and
  an underscore.
\<close>

theorem save_name_empty_url:
  "url l = JStr [] \<Longrightarrow> save_name w l = Inr (py_str w (date l) @ ''_'')"
  by (simp add: save_name_def)

theorem save_name_empty_url_witness:
  "save_name example_world (new_ImageListing (map_of [(''date'', JStr ''2024-01-01'')]))
     = Inr ''2024-01-01_''"
  using save_name_empty_url [of "new_ImageListing (map_of [(''date'', JStr ''2024-01-01'')])"
      example_world]
  by (simp add: new_ImageListing_def from_api_resp_json_def dict_get_def py_str_def)

text \<open>
  A response without \<^verbatim>\<open>hdurl\<close> gives a listing with the empty \<^verbatim>\<open>url\<close> whose \<^verbatim>\<open>save_name\<close> is
  neither an error nor the empty string.
\<close>

theorem save_name_empty_url_counterexample:
  "url (new_ImageListing (map_of [(''date'', JStr ''2024-01-01'')])) = JStr []
   \<and> save_name example_world (new_ImageListing (map_of [(''date'', JStr ''2024-01-01'')]))
       = Inr ''2024-01-01_''
   \<and> save_name example_world (new_ImageListing (map_of [(''date'', JStr ''2024-01-01'')]))
       \<noteq> Inr []"
  by (simp add: save_name_def new_ImageListing_def from_api_resp_json_def dict_get_def py_str_def)

text \<open>
  C9. Making a listing is total. Each field is the value the dictionary has under its key
  (\<^verbatim>\<open>hdurl\<close> for \<^verbatim>\<open>url\<close>) and the empty string when the key is missing; the constructor and
  \<^verbatim>\<open>from_api_resp_json\<close> agree, and the empty dictionary gives five empty strings.
\<close>

theorem listing_fields:
  "date (new_ImageListing j) = (case j ''date'' of None \<Rightarrow> JStr [] | Some v \<Rightarrow> v)
   \<and> explanation (new_ImageListing j) = (case j ''explanation'' of None \<Rightarrow> JStr [] | Some v \<Rightarrow> v)
   \<and> media_type (new_ImageListing j) = (case j ''media_type'' of None \<Rightarrow> JStr [] | Some v \<Rightarrow> v)
   \<and> title (new_ImageListing j) = (case j ''title'' of None \<Rightarrow> JStr [] | Some v \<Rightarrow> v)
   \<and> url (new_ImageListing j) = (case j ''hdurl'' of None \<Rightarrow> JStr [] | Some v \<Rightarrow> v)
   \<and> from_api_resp_json j = new_ImageListing j
   \<and> new_ImageListing Map.empty
       = \<lparr>date = JStr [], explanation = JStr [], media_type = JStr [], title = JStr [],
          url = JStr []\<rparr>"
  by (simp add: new_ImageListing_def from_api_resp_json_def dict_get_def)

section \<open>The claims about fetching\<close>

text \<open>
  C6. When the body of the API's answer has the key \<^verbatim>\<open>error\<close>, \<^verbatim>\<open>get_image_listing\<close> raises
  and returns no listing; when the value under \<^verbatim>\<open>error\<close> is a dictionary with a \<^verbatim>\<open>code\<close>,
  the exception is the program's own and its message ends in the text of that code
  between brackets.
\<close>

theorem error_key_fails:
  assumes "http_get w (api_url api_key) = Inr (Some r)"
    and "json_body r = Inr body"
    and "body ''error'' = Some err"
  shows "(\<exists>e. fst (get_image_listing w api_key s) = Inl e)
    \<and> (\<forall>d code. err = JObj d \<and> d ''code'' = Some code \<longrightarrow>
          fst (get_image_listing w api_key s)
            = Inl (Exception (''API call was invalid but to the correct endpoint. error returned [''
                              @ py_str w code @ '']'')))"
  using assms
  by (auto simp: get_image_listing_def Let_def subscript_def
      split: sum.splits json.splits option.splits)

theorem error_key_fails_witness:
  "fst (get_image_listing (world_answering example_error_response) ''KEY'' (start example_fs))
     = Inl (Exception
         ''API call was invalid but to the correct endpoint. error returned [API_KEY_INVALID]'')"
proof -
  let ?d = "map_of [(''code'', JStr ''API_KEY_INVALID''),
                    (''message'', JStr ''An invalid api_key was supplied.'')]"
  have "http_get (world_answering example_error_response) (api_url ''KEY'')
          = Inr (Some \<lparr>content = [], json_body = Inr example_error_response\<rparr>)"
    by (simp add: world_answering_def)
  moreover have "example_error_response ''error'' = Some (JObj ?d)"
    by (simp add: example_error_response_def)
  ultimately have "\<forall>d code. JObj ?d = JObj d \<and> d ''code'' = Some code \<longrightarrow>
          fst (get_image_listing (world_answering example_error_response) ''KEY'' (start example_fs))
            = Inl (Exception (''API call was invalid but to the correct endpoint. error returned [''
                              @ py_str (world_answering example_error_response) code @ '']''))"
    using error_key_fails [of "world_answering example_error_response" "''KEY''"
        "\<lparr>content = [], json_body = Inr example_error_response\<rparr>" example_error_response
        "JObj ?d" "start example_fs"]
    by simp
  then have "fst (get_image_listing (world_answering example_error_response) ''KEY'' (start example_fs))
            = Inl (Exception (''API call was invalid but to the correct endpoint. error returned [''
                 @ py_str (world_answering example_error_response) (JStr ''API_KEY_INVALID'') @ '']''))"
    by simp
  then show ?thesis by (simp add: py_str_def)
qed

section \<open>The claims about the run\<close>

text \<open>
  C8. Without an API key, or when the wallpaper script is not a file, \<^verbatim>\<open>main\<close> prints one
  message and exits with status 1; the trace holds that message only, so no request was
  made, and the file system is as it was.
\<close>

theorem missing_precondition_exits:
  assumes "api_key = None \<or> \<not> is_file fs0 (wallpaper_script w)"
  shows "fst (main w api_key (start fs0)) = Exit 1
    \<and> trace (snd (main w api_key (start fs0)))
        = [Print (if api_key = None then ''No API key provided''
                  else ''Wallpaper setting script not found'')]
    \<and> api_requests (trace (snd (main w api_key (start fs0)))) = []
    \<and> image_requests (trace (snd (main w api_key (start fs0)))) = []
    \<and> files (snd (main w api_key (start fs0))) = fs0"
  using assms
  by (cases api_key) (auto simp: main_def emit_def start_def api_requests_def image_requests_def)

text \<open>No key; and a key, but a home directory without the script.\<close>

theorem missing_precondition_exits_witness:
  "fst (main example_world None (start example_fs)) = Exit 1
   \<and> trace (snd (main example_world None (start example_fs))) = [Print ''No API key provided'']
   \<and> fst (main example_world (Some ''KEY'') (start Map.empty)) = Exit 1
   \<and> trace (snd (main example_world (Some ''KEY'') (start Map.empty)))
       = [Print ''Wallpaper setting script not found'']"
proof -
  have "\<not> is_file Map.empty (wallpaper_script example_world)"
    by (simp add: is_file_def stat_None example_world_def)
  then show ?thesis
    using missing_precondition_exits [of None example_fs example_world]
      missing_precondition_exits [of "Some ''KEY''" Map.empty example_world]
    by simp
qed

text \<open>
  C5. When the API answers with a body whose \<^verbatim>\<open>media_type\<close> is not the string \<^verbatim>\<open>image\<close>
  (or is missing), the run exits with status 1, asks for no image and writes nothing.
\<close>

theorem not_image_no_download:
  assumes api: "http_get w (api_url key) = Inr (Some r)" "json_body r = Inr body"
    and mt: "body ''media_type'' \<noteq> Some (JStr ''image'')"
  shows "exit_status (fst (main w (Some key) (start fs0))) = 1
    \<and> image_requests (trace (snd (main w (Some key) (start fs0)))) = []
    \<and> files (snd (main w (Some key) (start fs0))) = fs0"
proof -
  let ?s = "\<lparr>files = fs0, trace = [Print ''Getting daily-image listing'']\<rparr>"
  obtain res s1 where g: "get_image_listing w key ?s = (res, s1)"
    by (cases "get_image_listing w key ?s")
  have s1: "s1 = emit (ApiGet (api_url key)) ?s"
    using get_image_listing_state [of w key ?s] g by simp
  have ni: "\<not> is_image (new_ImageListing body)"
    using mt
    by (auto simp: is_image_def new_ImageListing_def from_api_resp_json_def dict_get_def
        split: option.splits)
  show ?thesis
  proof (cases res)
    case (Inl e)
    then show ?thesis
      unfolding main_def
      by (simp add: g s1 emit_def start_def exit_status_def image_requests_def)
  next
    case (Inr l)
    then have "l = new_ImageListing body"
      using get_image_listing_Inr [OF api, of ?s l] g by simp
    then show ?thesis
      unfolding main_def
      by (simp add: g s1 Inr ni emit_def start_def exit_status_def image_requests_def Let_def)
  qed
qed

theorem not_image_no_download_witness:
  "exit_status (fst (main (world_answering example_video_response) (Some ''KEY'')
                       (start example_fs))) = 1
   \<and> image_requests (trace (snd (main (world_answering example_video_response) (Some ''KEY'')
                                    (start example_fs)))) = []"
  using not_image_no_download [of "world_answering example_video_response" "''KEY''"
      "\<lparr>content = [], json_body = Inr example_video_response\<rparr>" example_video_response example_fs]
  by (simp add: world_answering_def example_video_response_def)

text \<open>
  C7. When the API has answered and the directory \<^verbatim>\<open>~/APOD/save_name\<close> of the listing
  exists, the run asks for no image and leaves the file system as it was: no image, no
  description and no link is written.
\<close>

theorem existing_directory_no_download:
  assumes api: "http_get w (api_url key) = Inr (Some r)" "json_body r = Inr body"
    and name: "save_name w (new_ImageListing body) = Inr name"
    and ex: "path_exists fs0 (path_div (path_div (home w) ''APOD'') name)"
  shows "image_requests (trace (snd (main w (Some key) (start fs0)))) = []
    \<and> files (snd (main w (Some key) (start fs0))) = fs0"
proof -
  let ?s = "\<lparr>files = fs0, trace = [Print ''Getting daily-image listing'']\<rparr>"
  obtain res s1 where g: "get_image_listing w key ?s = (res, s1)"
    by (cases "get_image_listing w key ?s")
  have s1: "s1 = emit (ApiGet (api_url key)) ?s"
    using get_image_listing_state [of w key ?s] g by simp
  show ?thesis
  proof (cases res)
    case (Inl e)
    then show ?thesis
      unfolding main_def
      by (simp add: g s1 emit_def start_def image_requests_def)
  next
    case (Inr l)
    then have l: "l = new_ImageListing body"
      using get_image_listing_Inr [OF api, of ?s l] g by simp
    show ?thesis
      unfolding main_def
      by (simp add: g s1 Inr l name ex emit_def start_def image_requests_def Let_def
          split: option.split)
  qed
qed

theorem existing_directory_no_download_witness:
  "image_requests (trace (snd (main example_world (Some ''KEY'') (start example_fs_cached)))) = []
   \<and> files (snd (main example_world (Some ''KEY'') (start example_fs_cached))) = example_fs_cached"
proof -
  have api: "http_get example_world (api_url ''KEY'')
               = Inr (Some \<lparr>content = [], json_body = Inr example_response\<rparr>)"
    "json_body \<lparr>content = [], json_body = Inr example_response\<rparr> = Inr example_response"
    by (simp_all add: example_world_def)
  have name: "save_name example_world (new_ImageListing example_response) = Inr ''2024-01-01_pic.jpg''"
    using save_name_segment [of example_response "''2024-01-01''" "''http://x/y''" "''pic.jpg''"
        example_world]
    by (simp add: example_response_def)
  have dir: "path_div (path_div (home example_world) ''APOD'') ''2024-01-01_pic.jpg''
      = [''home'', ''u'', ''APOD'', ''2024-01-01_pic.jpg'']"
    by (simp add: path_div_consts path_div_single example_world_def)
  have ex: "path_exists example_fs_cached
              (path_div (path_div (home example_world) ''APOD'') ''2024-01-01_pic.jpg'')"
    unfolding dir by (rule path_exists_Dir) (simp add: example_fs_cached_def)
  show ?thesis
    by (rule existing_directory_no_download [OF api name ex])
qed

section \<open>The claims about the files\<close>

text \<open>
  The results below are about a run that gets as far as writing: there is a key, the
  script is a file, the API answers with an image whose \<^verbatim>\<open>date\<close> has no slash and whose
  \<^verbatim>\<open>hdurl\<close> ends in \<^verbatim>\<open>/stem.ext\<close> with a non-empty \<^verbatim>\<open>ext\<close>, the image can be fetched, the home
  directory exists, \<^verbatim>\<open>~/APOD\<close> is missing or a directory, and nothing lies at or below
  \<^verbatim>\<open>~/APOD/save_name\<close>.
\<close>

text \<open>
  C2, as the code has it. In such a run, with \<^verbatim>\<open>~/Pictures/APOD\<close> a directory that has no
  entry \<^verbatim>\<open>save_name\<close>, the image is written to \<^verbatim>\<open>~/APOD/save_name/image.ext\<close>, the
  description to \<^verbatim>\<open>~/APOD/save_name/description.txt\<close>, and a symbolic link is made at
  \<^verbatim>\<open>~/Pictures/APOD/save_name\<close>; beside the directories \<^verbatim>\<open>~/APOD\<close> and \<^verbatim>\<open>~/APOD/save_name\<close>
  these are the only new entries, and the image was asked for once.
\<close>

theorem files_produced:
  assumes script: "is_file fs0 (wallpaper_script w)"
    and api: "http_get w (api_url key) = Inr (Some r)" "json_body r = Inr body"
    and body: "body ''error'' = None" "body ''media_type'' = Some (JStr ''image'')"
      "body ''date'' = Some (JStr d)"
      "body ''hdurl'' = Some (JStr (pre @ CHR ''/'' # stem @ CHR ''.'' # ext))"
    and d: "CHR ''/'' \<notin> set d"
    and stem: "CHR ''/'' \<notin> set stem"
    and ext: "CHR ''.'' \<notin> set ext" "CHR ''/'' \<notin> set ext" "ext \<noteq> []"
    and get: "http_get w (pre @ CHR ''/'' # stem @ CHR ''.'' # ext) = Inr (Some img_resp)"
    and h: "fs0 (home w) = Some Dir"
    and a: "fs0 (home w @ [''APOD'']) = None \<or> fs0 (home w @ [''APOD'']) = Some Dir"
    and below: "\<And>q. fs0 (home w @ [''APOD'', d @ ''_'' @ stem @ ''.'' @ ext] @ q) = None"
    and links: "fs0 (home w @ [''Pictures'', ''APOD'']) = Some Dir"
    and free: "fs0 (home w @ [''Pictures'', ''APOD'', d @ ''_'' @ stem @ ''.'' @ ext]) = None"
  shows "let s' = snd (main w (Some key) (start fs0));
             name = d @ ''_'' @ stem @ ''.'' @ ext;
             dir = home w @ [''APOD'', name]
         in files s' (dir @ [''image.'' @ ext]) = Some (File (Bytes (content img_resp)))
          \<and> files s' (dir @ [''description.txt''])
              = Some (File (Text (py_str w (title (new_ImageListing body)) @ [CHR 0x0A, CHR 0x0A]
                                  @ py_str w (explanation (new_ImageListing body)) @ [CHR 0x0A])))
          \<and> (\<exists>target. files s' (home w @ [''Pictures'', ''APOD'', name]) = Some (Link target))
          \<and> dom (files s') = dom fs0 \<union>
               {home w @ [''APOD''], dir, dir @ [''image.'' @ ext], dir @ [''description.txt''],
                home w @ [''Pictures'', ''APOD'', name]}
          \<and> image_requests (trace s') = [pre @ CHR ''/'' # stem @ CHR ''.'' # ext]"
proof -
  let ?name = "d @ ''_'' @ stem @ ''.'' @ ext"
  let ?dir = "home w @ [''APOD'', ?name]"
  let ?lnk = "home w @ [''Pictures'', ''APOD'', ?name]"
  let ?fs4 = "saved w (new_ImageListing body) ?dir ext (content img_resp) fs0"
  have sl: "symlink_to ?fs4 ?lnk (?dir @ [''image'']) = Inr (?fs4(?lnk \<mapsto> Link (?dir @ [''image''])))"
    using links free by (intro symlink_to_new) (simp_all add: saved_def butlast_append)
  have m: "snd (main w (Some key) (start fs0))
      = \<lparr>files = ?fs4(?lnk \<mapsto> Link (?dir @ [''image''])),
         trace = [Print ''Getting daily-image listing'', ApiGet (api_url key),
                Print (CHR 0x09 # ''Title: '' @ py_str w (title (new_ImageListing body))),
                Print ''Downloading image'',
                ImageGet (pre @ CHR ''/'' # stem @ CHR ''.'' # ext),
                Print ''Setting wallpaper'', Run (wallpaper_script w) ?lnk]\<rparr>"
    unfolding main_download_result [OF script api body d stem ext get h a below]
    by (simp add: Let_def sl [simplified])
  show ?thesis
    unfolding m Let_def
    by (auto simp: saved_def butlast_append image_requests_def)
qed

text \<open>The example: \<^verbatim>\<open>image.jpg\<close>, the description and a link at \<^verbatim>\<open>~/Pictures/APOD/2024-01-01_pic.jpg\<close>.\<close>

theorem files_produced_witness:
  "files (snd (main example_world (Some ''KEY'') (start example_fs)))
     [''home'', ''u'', ''APOD'', ''2024-01-01_pic.jpg'', ''image.jpg''] = Some (File (Bytes [1, 2, 3]))
   \<and> files (snd (main example_world (Some ''KEY'') (start example_fs)))
     [''home'', ''u'', ''APOD'', ''2024-01-01_pic.jpg'', ''description.txt'']
       = Some (File (Text [CHR ''T'', CHR 0x0A, CHR 0x0A, CHR ''E'', CHR 0x0A]))
   \<and> (\<exists>target. files (snd (main example_world (Some ''KEY'') (start example_fs)))
     [''home'', ''u'', ''Pictures'', ''APOD'', ''2024-01-01_pic.jpg''] = Some (Link target))
   \<and> image_requests (trace (snd (main example_world (Some ''KEY'') (start example_fs))))
       = [''http://x/y/pic.jpg'']"
  using files_produced [where ?fs0.0 = example_fs and w = example_world and key = "''KEY''"
      and r = "\<lparr>content = [], json_body = Inr example_response\<rparr>" and body = example_response
      and d = "''2024-01-01''" and pre = "''http://x/y''" and stem = "''pic''" and ext = "''jpg''"
      and img_resp = "\<lparr>content = [1, 2, 3], json_body = Inl ValueError\<rparr>"]
  by (simp add: example_world_def example_fs_def example_fs_no_links_def example_response_def
      is_file_File api_url_def Let_def new_ImageListing_def from_api_resp_json_def dict_get_def
      py_str_def)

text \<open>
  On the example nothing is made at \<^verbatim>\<open>~/Pictures/APOD/2024-01-01_pic.jpg/image\<close>: the link is
  the entry \<^verbatim>\<open>~/Pictures/APOD/2024-01-01_pic.jpg\<close> itself.
\<close>

theorem files_produced_counterexample:
  "files (snd (main example_world (Some ''KEY'') (start example_fs)))
     [''home'', ''u'', ''Pictures'', ''APOD'', ''2024-01-01_pic.jpg'', ''image''] = None
   \<and> files (snd (main example_world (Some ''KEY'') (start example_fs)))
     [''home'', ''u'', ''Pictures'', ''APOD'', ''2024-01-01_pic.jpg'']
     = Some (Link [''home'', ''u'', ''APOD'', ''2024-01-01_pic.jpg'', ''image''])"
  unfolding example_run
  by (simp add: example_fs_def example_fs_no_links_def)

text \<open>
  C1. On the example response, in a home directory without \<^verbatim>\<open>~/APOD\<close>, the run writes the
  image to \<^verbatim>\<open>image.jpg\<close> and the description \<^verbatim>\<open>T\<close>, an empty line, \<^verbatim>\<open>E\<close> and a newline, and
  makes one link. The link points to \<^verbatim>\<open>~/APOD/2024-01-01_pic.jpg/image\<close>, where there is
  nothing: the image that was written is \<^verbatim>\<open>image.jpg\<close>, and the link does not lead to a file.
\<close>

theorem example_symlink_target:
  "let s' = snd (main example_world (Some ''KEY'') (start example_fs));
       dir = [''home'', ''u'', ''APOD'', ''2024-01-01_pic.jpg''];
       lnk = [''home'', ''u'', ''Pictures'', ''APOD'', ''2024-01-01_pic.jpg'']
   in files s' (dir @ [''image.jpg'']) = Some (File (Bytes [1, 2, 3]))
    \<and> files s' (dir @ [''description.txt''])
        = Some (File (Text [CHR ''T'', CHR 0x0A, CHR 0x0A, CHR ''E'', CHR 0x0A]))
    \<and> files s' lnk = Some (Link (dir @ [''image'']))
    \<and> files s' (dir @ [''image'']) = None
    \<and> \<not> path_exists (files s') lnk"
proof -
  have "stat (files (snd (main example_world (Some ''KEY'') (start example_fs))))
          [''home'', ''u'', ''Pictures'', ''APOD'', ''2024-01-01_pic.jpg''] = None"
    unfolding example_run
    by (rule stat_dangling [where t = "[''home'', ''u'', ''APOD'', ''2024-01-01_pic.jpg'', ''image'']"])
       (simp_all add: example_fs_def example_fs_no_links_def)
  then show ?thesis
    unfolding example_run Let_def path_exists_def
    by (simp add: example_fs_def example_fs_no_links_def)
qed




end
